theory Spec2Isabelle
  imports Complex_Main "HOL-Library.Char_ord"
begin

section \<open>Numbers and characters\<close>

text \<open>
  The program computes with C++ \<^verbatim>\<open>double\<close> and \<^verbatim>\<open>int\<close>. A \<^verbatim>\<open>double\<close> is
  modelled by the real number it denotes: arithmetic is exact, and IEEE rounding,
  infinities and NaN are outside the model. Comparisons of doubles are comparisons of
  the numbers they denote, so every branch of the program is taken in the model as in
  the code. An \<^verbatim>\<open>int\<close> is only read, compared and converted to \<^verbatim>\<open>double\<close>
  (never added to), so it is an \<open>int\<close> and the conversion is \<open>real_of_int\<close>.
\<close>

type_synonym double = real

text \<open>
  \<^verbatim>\<open>::tolower\<close> in the "C" locale (the program never calls \<^verbatim>\<open>setlocale\<close>):
  the 26 upper-case ASCII letters move down by 32, every other byte is kept.
\<close>

definition tolower :: "char \<Rightarrow> char" where
  "tolower c =
     (if CHR ''A'' \<le> c \<and> c \<le> CHR ''Z'' then char_of (of_char c + (32::nat)) else c)"

section \<open>Constants of \<^verbatim>\<open>WellnessBot\<close>\<close>

record ActivityMultiplier =
  level :: string
  multiplier :: double

definition ACTIVITY_MULTIPLIERS :: "ActivityMultiplier list" where
  "ACTIVITY_MULTIPLIERS =
     [\<lparr>level = ''sedentary'', multiplier = 1.2\<rparr>,
      \<lparr>level = ''lightly active'', multiplier = 1.375\<rparr>,
      \<lparr>level = ''moderately active'', multiplier = 1.55\<rparr>,
      \<lparr>level = ''very active'', multiplier = 1.725\<rparr>]"

record MacroRatio =
  carbs :: double
  protein :: double
  fats :: double

text \<open>The default member initialisers of \<^verbatim>\<open>MacroRatio\<close>: what \<^verbatim>\<open>MacroRatio macros;\<close> holds.\<close>

definition macros :: MacroRatio where
  "macros = \<lparr>carbs = 0.5, protein = 0.2, fats = 0.3\<rparr>"

definition CALORIES_PER_GRAM_PROTEIN :: double where
  "CALORIES_PER_GRAM_PROTEIN = 4.0"

definition CALORIES_PER_GRAM_CARBS :: double where
  "CALORIES_PER_GRAM_CARBS = 4.0"

definition CALORIES_PER_GRAM_FAT :: double where
  "CALORIES_PER_GRAM_FAT = 9.0"

record BMIThresholds =
  underweight :: double
  normal :: double
  overweight :: double

definition bmiThresholds :: BMIThresholds where
  "bmiThresholds = \<lparr>underweight = 18.5, normal = 24.9, overweight = 29.9\<rparr>"

section \<open>Input validation\<close>

definition isValidGender :: "string \<Rightarrow> bool" where
  "isValidGender gender =
     (let lower = map tolower gender in lower = ''male'' \<or> lower = ''female'')"

definition isValidActivityLevel :: "string \<Rightarrow> bool" where
  "isValidActivityLevel lvl =
     (let lower = map tolower lvl in
        lower = ''sedentary'' \<or> lower = ''lightly active'' \<or>
        lower = ''moderately active'' \<or> lower = ''very active'')"

definition isValidLifestyle :: "string \<Rightarrow> bool" where
  "isValidLifestyle lifestyle =
     (let lower = map tolower lifestyle in
        lower = ''smoking'' \<or> lower = ''alcohol'' \<or> lower = ''none'')"

definition isValidDietaryPref :: "string \<Rightarrow> bool" where
  "isValidDietaryPref pref =
     (let lower = map tolower pref in
        lower = ''vegetarian'' \<or> lower = ''vegan'' \<or> lower = ''none'')"

text \<open>
  \<^verbatim>\<open>getValidInput<T>\<close> loops until \<^verbatim>\<open>cin >> value\<close> succeeds with a value inside
  the bounds. Standard input is modelled by what the successive extractions give: one
  entry per turn of the loop, \<open>None\<close> when the extraction fails (text that is no
  number of type \<^verbatim>\<open>T\<close>, or the end of the input), \<open>Some v\<close> when it reads
  \<open>v\<close>. How the characters of the stream are cut into these extractions
  (\<^verbatim>\<open>cin.clear\<close>, \<^verbatim>\<open>cin.ignore\<close>) and the prompts written to \<^verbatim>\<open>cout\<close> are not
  modelled. The loop has no exit but an accepted value: when the entries run out
  before one is accepted the function never returns, which is the result \<open>None\<close>.
\<close>

fun getValidInput :: "('a::linorder) option list \<Rightarrow> 'a \<Rightarrow> 'a \<Rightarrow> 'a option" where
  "getValidInput [] min_value max_value = None"
| "getValidInput (None # rest) min_value max_value = getValidInput rest min_value max_value"
| "getValidInput (Some v # rest) min_value max_value =
     (if v \<ge> min_value \<and> v \<le> max_value then Some v
      else getValidInput rest min_value max_value)"

text \<open>
  \<^verbatim>\<open>getValidStringInput\<close> reads lines until the validation function accepts one,
  and returns that line in lower case. The input is the list of lines \<^verbatim>\<open>getline\<close>
  gives; \<open>None\<close> again stands for a loop that never returns.
\<close>

fun getValidStringInput :: "(string \<Rightarrow> bool) \<Rightarrow> string list \<Rightarrow> string option" where
  "getValidStringInput validationFunc [] = None"
| "getValidStringInput validationFunc (input # rest) =
     (if validationFunc input then Some (map tolower input)
      else getValidStringInput validationFunc rest)"

section \<open>The profile\<close>

record UserProfile =
  age :: int
  gender :: string
  height :: double
  weight :: double
  activityLevel :: string
  sleepHours :: int
  lifestyle :: string
  dietaryPref :: string
  bmi :: double
  bmr :: double
  dailyCalories :: double

text \<open>
  What the user types, one list of extractions per prompt of \<^verbatim>\<open>collectUserData\<close>,
  in the order of the prompts.
\<close>

record UserInput =
  ageInput :: "int option list"
  genderInput :: "string list"
  heightInput :: "double option list"
  weightInput :: "double option list"
  activityLevelInput :: "string list"
  sleepHoursInput :: "int option list"
  lifestyleInput :: "string list"
  dietaryPrefInput :: "string list"

text \<open>
  \<^verbatim>\<open>UserProfile profile;\<close> is declared with no initialiser, so every field starts
  with whatever the memory holds: the first argument. \<^verbatim>\<open>collectUserData\<close> assigns
  the eight entered fields and leaves \<open>bmi\<close>, \<open>bmr\<close> and \<open>dailyCalories\<close> as they
  are.
\<close>

definition collectUserData :: "UserProfile \<Rightarrow> UserInput \<Rightarrow> UserProfile option" where
  "collectUserData profile inp =
     (case getValidInput (ageInput inp) 1 120 of None \<Rightarrow> None | Some a \<Rightarrow>
      case getValidStringInput isValidGender (genderInput inp) of None \<Rightarrow> None | Some g \<Rightarrow>
      case getValidInput (heightInput inp) 0.5 2.5 of None \<Rightarrow> None | Some h \<Rightarrow>
      case getValidInput (weightInput inp) 20.0 300.0 of None \<Rightarrow> None | Some w \<Rightarrow>
      case getValidStringInput isValidActivityLevel (activityLevelInput inp) of
        None \<Rightarrow> None | Some l \<Rightarrow>
      case getValidInput (sleepHoursInput inp) 0 24 of None \<Rightarrow> None | Some s \<Rightarrow>
      case getValidStringInput isValidLifestyle (lifestyleInput inp) of
        None \<Rightarrow> None | Some ls \<Rightarrow>
      case getValidStringInput isValidDietaryPref (dietaryPrefInput inp) of
        None \<Rightarrow> None | Some d \<Rightarrow>
      Some (profile\<lparr>age := a, gender := g, height := h, weight := w, activityLevel := l,
                     sleepHours := s, lifestyle := ls, dietaryPref := d\<rparr>))"

section \<open>The metrics\<close>

text \<open>
  The loop over \<^verbatim>\<open>ACTIVITY_MULTIPLIERS\<close>: the first entry whose level is the
  profile's activity level assigns \<open>dailyCalories\<close> and breaks; when no entry
  matches, the loop ends with nothing assigned.
\<close>

fun activityLoop :: "ActivityMultiplier list \<Rightarrow> UserProfile \<Rightarrow> UserProfile" where
  "activityLoop [] profile = profile"
| "activityLoop (activity # rest) profile =
     (if level activity = activityLevel profile
      then profile\<lparr>dailyCalories := bmr profile * multiplier activity\<rparr>
      else activityLoop rest profile)"

text \<open>
  \<^verbatim>\<open>calculateMetrics\<close> takes the profile by reference and assigns in this order:
  \<open>bmi\<close>, then \<open>bmr\<close> by the gender's formula, then \<open>dailyCalories\<close> in the loop.
  \<^verbatim>\<open>pow(profile.height, 2)\<close> is the square.
\<close>

definition calculateMetrics :: "UserProfile \<Rightarrow> UserProfile" where
  "calculateMetrics profile =
     (let p1 = profile\<lparr>bmi := weight profile / (height profile)\<^sup>2\<rparr>;
          p2 = (if gender p1 = ''male''
                then p1\<lparr>bmr := 88.362 + (13.397 * weight p1) +
                              (4.799 * height p1 * 100) - (5.677 * real_of_int (age p1))\<rparr>
                else p1\<lparr>bmr := 447.593 + (9.247 * weight p1) +
                              (3.098 * height p1 * 100) - (4.330 * real_of_int (age p1))\<rparr>)
      in activityLoop ACTIVITY_MULTIPLIERS p2)"

section \<open>The report\<close>

text \<open>
  \<^verbatim>\<open>displayResults\<close> and \<^verbatim>\<open>provideRecommendations\<close> write to \<^verbatim>\<open>cout\<close>. Their
  result in the model is what they write, item by item: a string literal, or a
  \<^verbatim>\<open>double\<close> written under \<^verbatim>\<open>fixed << setprecision(2)\<close> (the number is kept, its
  decimal digits are not computed).
\<close>

datatype token = Str string | Fixed2 double

text \<open>The BMI category line of \<^verbatim>\<open>displayResults\<close> (its first \<^verbatim>\<open>if\<close> chain).\<close>

definition bmiCategory :: "double \<Rightarrow> string" where
  "bmiCategory b =
     (if b < underweight bmiThresholds then ''Category: Underweight\<newline>''
      else if b < normal bmiThresholds then ''Category: Normal weight\<newline>''
      else if b < overweight bmiThresholds then ''Category: Overweight\<newline>''
      else ''Category: Obese\<newline>'')"

text \<open>The three gram values \<^verbatim>\<open>displayResults\<close> computes from \<open>dailyCalories\<close>.\<close>

definition carbsGrams :: "double \<Rightarrow> double" where
  "carbsGrams calories = calories * carbs macros / CALORIES_PER_GRAM_CARBS"

definition proteinGrams :: "double \<Rightarrow> double" where
  "proteinGrams calories = calories * protein macros / CALORIES_PER_GRAM_PROTEIN"

definition fatGrams :: "double \<Rightarrow> double" where
  "fatGrams calories = calories * fats macros / CALORIES_PER_GRAM_FAT"

text \<open>The two exercise blocks of \<^verbatim>\<open>provideRecommendations\<close>.\<close>

definition lowImpactBlock :: "token list" where
  "lowImpactBlock =
     [Str ''- Start with low-impact activities like walking or swimming\<newline>'',
      Str ''- Aim for 150 minutes of moderate activity per week\<newline>'',
      Str ''- Include strength training 2-3 times per week\<newline>'']"

definition balancedRoutineBlock :: "token list" where
  "balancedRoutineBlock =
     [Str ''- Maintain a balanced exercise routine\<newline>'',
      Str ''- Mix cardio with strength training\<newline>'',
      Str ''- Consider adding flexibility exercises\<newline>'']"

definition provideRecommendations :: "UserProfile \<Rightarrow> token list" where
  "provideRecommendations profile =
     [Str ''\<newline>=== Personalized Recommendations ===\<newline>'',
      Str ''\<newline>Exercise Recommendations:\<newline>''] @
     (if bmi profile \<ge> normal bmiThresholds then lowImpactBlock else balancedRoutineBlock) @
     [Str ''\<newline>Sleep Recommendations:\<newline>''] @
     (if sleepHours profile < 7
      then [Str ''- Aim to increase sleep to 7-8 hours per night\<newline>'',
            Str ''- Establish a regular sleep schedule\<newline>'',
            Str ''- Create a relaxing bedtime routine\<newline>'']
      else [Str ''- Maintain your good sleep habits\<newline>'',
            Str ''- Consider sleep quality improvements\<newline>'']) @
     [Str ''\<newline>Nutritional Recommendations:\<newline>''] @
     (if dietaryPref profile = ''vegetarian''
      then [Str ''- Focus on complete protein sources (eggs, dairy, legumes)\<newline>'',
            Str ''- Monitor B12 and iron intake\<newline>'']
      else if dietaryPref profile = ''vegan''
      then [Str ''- Ensure adequate B12 supplementation\<newline>'',
            Str ''- Combine protein sources for complete amino acids\<newline>'',
            Str ''- Monitor iron, calcium, and vitamin D intake\<newline>'']
      else [Str ''- Choose lean protein sources\<newline>'',
            Str ''- Include a variety of colorful vegetables\<newline>'',
            Str ''- Limit processed foods\<newline>'']) @
     (if lifestyle profile \<noteq> ''none''
      then [Str ''\<newline>Lifestyle Recommendations:\<newline>''] @
           (if lifestyle profile = ''smoking''
            then [Str ''- Consider smoking cessation programs\<newline>'',
                  Str ''- Consult healthcare provider about cessation aids\<newline>'']
            else if lifestyle profile = ''alcohol''
            then [Str ''- Limit alcohol consumption\<newline>'',
                  Str ''- Consider alcohol-free days\<newline>'',
                  Str ''- Stay hydrated\<newline>'']
            else [])
      else [])"

definition displayResults :: "UserProfile \<Rightarrow> token list" where
  "displayResults profile =
     [Str ''\<newline>=== Wellness Assessment Results ===\<newline>\<newline>'',
      Str ''BMI: '', Fixed2 (bmi profile), Str '' - '',
      Str (bmiCategory (bmi profile)),
      Str ''\<newline>BMR: '', Fixed2 (bmr profile), Str '' calories/day\<newline>'',
      Str ''Daily Caloric Needs: '', Fixed2 (dailyCalories profile), Str '' calories\<newline>'',
      Str ''\<newline>Recommended Macronutrient Distribution:'',
      Str ''\<newline>  - Carbohydrates: '', Fixed2 (carbsGrams (dailyCalories profile)),
      Str '' grams'',
      Str ''\<newline>  - Protein: '', Fixed2 (proteinGrams (dailyCalories profile)),
      Str '' grams'',
      Str ''\<newline>  - Fats: '', Fixed2 (fatGrams (dailyCalories profile)),
      Str '' grams\<newline>''] @
     provideRecommendations profile"

section \<open>Test data\<close>

text \<open>
  The end-to-end scenario of the specification: age 25, male, 1.80 m, 75 kg, moderately
  active, 6 hours of sleep, no lifestyle habit, no dietary preference. The three
  computed fields start at 0.
\<close>

definition scenario :: UserProfile where
  "scenario =
     \<lparr>age = 25, gender = ''male'', height = 1.80, weight = 75,
      activityLevel = ''moderately active'', sleepHours = 6, lifestyle = ''none'',
      dietaryPref = ''none'', bmi = 0, bmr = 0, dailyCalories = 0\<rparr>"

text \<open>
  A session that ends in the scenario: the rejected entries come first, and the
  accepted strings are typed in mixed case.
\<close>

definition scenarioInput :: UserInput where
  "scenarioInput =
     \<lparr>ageInput = [None, Some 0, Some 121, Some 25],
      genderInput = [''man'', ''MALE''],
      heightInput = [Some 3, Some 1.80],
      weightInput = [Some 75],
      activityLevelInput = [''Moderately Active''],
      sleepHoursInput = [Some 6],
      lifestyleInput = [''None''],
      dietaryPrefInput = [''none'']\<rparr>"

text \<open>
  A profile every validator accepts (52 years, 1.109375 m, 57.96875 kg) on which the
  two BMR formulas meet. The three numbers are binary fractions, so they are doubles.
\<close>

definition coincidence :: UserProfile where
  "coincidence =
     \<lparr>age = 52, gender = ''male'', height = 1.109375, weight = 57.96875,
      activityLevel = ''sedentary'', sleepHours = 8, lifestyle = ''none'',
      dietaryPref = ''none'', bmi = 0, bmr = 0, dailyCalories = 0\<rparr>"

section \<open>Helper facts\<close>

lemma activityLoop_fields:
  "age (activityLoop tab p) = age p"
  "gender (activityLoop tab p) = gender p"
  "height (activityLoop tab p) = height p"
  "weight (activityLoop tab p) = weight p"
  "activityLevel (activityLoop tab p) = activityLevel p"
  "sleepHours (activityLoop tab p) = sleepHours p"
  "lifestyle (activityLoop tab p) = lifestyle p"
  "dietaryPref (activityLoop tab p) = dietaryPref p"
  "bmi (activityLoop tab p) = bmi p"
  "bmr (activityLoop tab p) = bmr p"
  by (induction tab) simp_all

lemma activityLoop_table:
  "activityLoop ACTIVITY_MULTIPLIERS q =
     (if activityLevel q = ''sedentary'' then q\<lparr>dailyCalories := bmr q * 1.2\<rparr>
      else if activityLevel q = ''lightly active'' then q\<lparr>dailyCalories := bmr q * 1.375\<rparr>
      else if activityLevel q = ''moderately active'' then q\<lparr>dailyCalories := bmr q * 1.55\<rparr>
      else if activityLevel q = ''very active'' then q\<lparr>dailyCalories := bmr q * 1.725\<rparr>
      else q)"
  by (auto simp: ACTIVITY_MULTIPLIERS_def)

lemma getValidStringInput_valid:
  "getValidStringInput f inputs = Some r \<Longrightarrow> \<exists>s \<in> set inputs. f s \<and> r = map tolower s"
  by (induction inputs) (auto split: if_splits)

lemma getValidInput_range:
  "getValidInput inputs mn mx = Some v \<Longrightarrow> mn \<le> v \<and> v \<le> mx"
  by (induction inputs mn mx rule: getValidInput.induct) (auto split: if_splits)

lemma tolower_letters:
  "tolower CHR ''M'' = CHR ''m''" "tolower CHR ''A'' = CHR ''a''"
  "tolower CHR ''L'' = CHR ''l''" "tolower CHR ''E'' = CHR ''e''"
  "tolower CHR ''m'' = CHR ''m''" "tolower CHR ''a'' = CHR ''a''"
  "tolower CHR ''l'' = CHR ''l''" "tolower CHR ''e'' = CHR ''e''"
  by code_simp+

lemma tolower_strings:
  "map tolower ''man'' = ''man''" "map tolower ''FeMale'' = ''female''"
  by code_simp+

lemma collect_scenario: "collectUserData scenario scenarioInput = Some scenario"
  by code_simp

lemma blocks_differ: "lowImpactBlock \<noteq> balancedRoutineBlock"
  by (simp add: lowImpactBlock_def balancedRoutineBlock_def)

lemma exercise_section:
  "take 3 (drop 2 (provideRecommendations p)) =
     (if bmi p \<ge> 24.9 then lowImpactBlock else balancedRoutineBlock)"
  by (simp add: provideRecommendations_def bmiThresholds_def lowImpactBlock_def
      balancedRoutineBlock_def)

section \<open>Verified properties\<close>

text \<open>
  C1. For every weight \<open>w > 0\<close> and height \<open>h > 0\<close>, the BMI that
  \<^verbatim>\<open>calculateMetrics\<close> stores is \<open>w / h\<^sup>2\<close>: whatever the gender and the
  activity level are, the later assignments leave it alone. Doubles being modelled as
  reals, the stored value is the quotient itself, so it is within \<open>10\<^sup>-\<^sup>9\<close> of it.
\<close>

theorem C1_bmi_formula:
  assumes "weight p > 0" and "height p > 0"
  shows "bmi (calculateMetrics p) = weight p / (height p)\<^sup>2
         \<and> \<bar>bmi (calculateMetrics p) - weight p / (height p)\<^sup>2\<bar> \<le> 1 / 10 ^ 9"
  by (simp add: calculateMetrics_def Let_def activityLoop_fields)

theorem C1_bmi_formula_witness:
  "weight scenario > 0 \<and> height scenario > 0
   \<and> bmi (calculateMetrics scenario) = 75 / 1.8\<^sup>2"
  using C1_bmi_formula [of scenario] by (simp add: scenario_def)

text \<open>
  C2. The BMI category is a function of the BMI alone, with each band closed below and
  open above: under 18.5 "Underweight", from 18.5 to under 24.9 "Normal weight", from
  24.9 to under 29.9 "Overweight", from 29.9 on "Obese". So 18.5 is "Normal weight",
  24.9 is "Overweight" and 29.9 is "Obese". It is the fifth item \<^verbatim>\<open>displayResults\<close>
  writes.
\<close>

theorem C2_bmi_category:
  "(b < 18.5 \<longrightarrow> bmiCategory b = ''Category: Underweight\<newline>'')
   \<and> (18.5 \<le> b \<and> b < 24.9 \<longrightarrow> bmiCategory b = ''Category: Normal weight\<newline>'')
   \<and> (24.9 \<le> b \<and> b < 29.9 \<longrightarrow> bmiCategory b = ''Category: Overweight\<newline>'')
   \<and> (29.9 \<le> b \<longrightarrow> bmiCategory b = ''Category: Obese\<newline>'')
   \<and> bmiCategory 18.5 = ''Category: Normal weight\<newline>''
   \<and> bmiCategory 24.9 = ''Category: Overweight\<newline>''
   \<and> bmiCategory 29.9 = ''Category: Obese\<newline>''
   \<and> displayResults p ! 4 = Str (bmiCategory (bmi p))"
  by (simp add: bmiCategory_def bmiThresholds_def displayResults_def)

theorem C2_bmi_category_witness:
  "(18.5 \<le> bmi (calculateMetrics scenario) \<and> bmi (calculateMetrics scenario) < 24.9)
   \<and> bmiCategory (bmi (calculateMetrics scenario)) = ''Category: Normal weight\<newline>''
   \<and> displayResults (calculateMetrics scenario) ! 4 = Str ''Category: Normal weight\<newline>''"
  using C2_bmi_category [of "bmi (calculateMetrics scenario)" "calculateMetrics scenario"]
  by (simp add: calculateMetrics_def Let_def activityLoop_fields scenario_def power2_eq_square)

text \<open>
  C3, as amended. A profile whose gender is "male" gets
  \<open>88.362 + 13.397 * weight + 4.799 * (height * 100) - 5.677 * age\<close>, one whose gender
  is "female" gets \<open>447.593 + 9.247 * weight + 3.098 * (height * 100) - 4.330 * age\<close>
  (for every age, height and weight, valid or not). A male and a female profile of the
  same age, height and weight get different values exactly when
  \<open>4.15 * weight + 170.1 * height - 1.347 * age\<close> is not \<open>359.231\<close>.
\<close>

theorem C3_bmr_by_gender:
  "(gender p = ''male'' \<longrightarrow>
      bmr (calculateMetrics p) =
        88.362 + 13.397 * weight p + 4.799 * (height p * 100) - 5.677 * real_of_int (age p))
   \<and> (gender p = ''female'' \<longrightarrow>
      bmr (calculateMetrics p) =
        447.593 + 9.247 * weight p + 3.098 * (height p * 100) - 4.330 * real_of_int (age p))
   \<and> (gender p = ''male'' \<and> gender q = ''female'' \<and> age q = age p \<and> height q = height p
        \<and> weight q = weight p \<longrightarrow>
      (bmr (calculateMetrics p) \<noteq> bmr (calculateMetrics q)) =
      (4.15 * weight p + 170.1 * height p - 1.347 * real_of_int (age p) \<noteq> 359.231))"
  by (auto simp: calculateMetrics_def Let_def activityLoop_fields)

theorem C3_bmr_by_gender_witness:
  "gender scenario = ''male'' \<and> gender (scenario\<lparr>gender := ''female''\<rparr>) = ''female''
   \<and> bmr (calculateMetrics scenario) = 1815.032
   \<and> bmr (calculateMetrics (scenario\<lparr>gender := ''female''\<rparr>)) = 1590.508
   \<and> bmr (calculateMetrics scenario)
       \<noteq> bmr (calculateMetrics (scenario\<lparr>gender := ''female''\<rparr>))"
  using C3_bmr_by_gender [of scenario "scenario\<lparr>gender := ''female''\<rparr>"]
  by (simp add: scenario_def calculateMetrics_def Let_def activityLoop_fields)

text \<open>
  C3 as it is stated fails: the male profile \<open>coincidence\<close> and the female profile of
  the same age, height and weight get the same BMR, 1102.15440625.
\<close>

theorem C3_same_bmr_counterexample:
  "gender coincidence = ''male''
   \<and> bmr (calculateMetrics coincidence) = 1102.15440625
   \<and> bmr (calculateMetrics (coincidence\<lparr>gender := ''female''\<rparr>)) = 1102.15440625"
  by (simp add: calculateMetrics_def Let_def activityLoop_fields coincidence_def)

text \<open>
  C4. When the activity level is one of the four strings of the table,
  \<^verbatim>\<open>calculateMetrics\<close> sets \<open>dailyCalories\<close> to the BMR it has just computed times
  the multiplier of that level: 1.2 for "sedentary", 1.375 for "lightly active", 1.55
  for "moderately active", 1.725 for "very active".
\<close>

theorem C4_daily_calories:
  "(activityLevel p = ''sedentary'' \<longrightarrow>
      dailyCalories (calculateMetrics p) = bmr (calculateMetrics p) * 1.2)
   \<and> (activityLevel p = ''lightly active'' \<longrightarrow>
      dailyCalories (calculateMetrics p) = bmr (calculateMetrics p) * 1.375)
   \<and> (activityLevel p = ''moderately active'' \<longrightarrow>
      dailyCalories (calculateMetrics p) = bmr (calculateMetrics p) * 1.55)
   \<and> (activityLevel p = ''very active'' \<longrightarrow>
      dailyCalories (calculateMetrics p) = bmr (calculateMetrics p) * 1.725)"
  by (simp add: calculateMetrics_def Let_def activityLoop_table)

theorem C4_daily_calories_witness:
  "activityLevel scenario = ''moderately active''
   \<and> dailyCalories (calculateMetrics scenario) = 1815.032 * 1.55"
  using C4_daily_calories [of scenario]
  by (simp add: calculateMetrics_def Let_def activityLoop_table scenario_def)

text \<open>
  C5. The grams \<^verbatim>\<open>displayResults\<close> writes are \<open>dailyCalories * 0.50 / 4.0\<close> of
  carbohydrates, \<open>dailyCalories * 0.20 / 4.0\<close> of protein and
  \<open>dailyCalories * 0.30 / 9.0\<close> of fat, and their calories add up to
  \<open>dailyCalories\<close> again, whatever its value: in exact arithmetic the sum is
  \<open>dailyCalories\<close> itself.
\<close>

theorem C5_macronutrients:
  "carbsGrams d = d * 0.50 / 4.0
   \<and> proteinGrams d = d * 0.20 / 4.0
   \<and> fatGrams d = d * 0.30 / 9.0
   \<and> carbsGrams d * 4 + proteinGrams d * 4 + fatGrams d * 9 = d
   \<and> displayResults p ! 13 = Fixed2 (carbsGrams (dailyCalories p))
   \<and> displayResults p ! 16 = Fixed2 (proteinGrams (dailyCalories p))
   \<and> displayResults p ! 19 = Fixed2 (fatGrams (dailyCalories p))"
  by (simp add: carbsGrams_def proteinGrams_def fatGrams_def macros_def
      CALORIES_PER_GRAM_CARBS_def CALORIES_PER_GRAM_PROTEIN_def CALORIES_PER_GRAM_FAT_def
      displayResults_def)

text \<open>
  C6. When the activity level is none of the four strings of the table,
  \<^verbatim>\<open>calculateMetrics\<close> does not assign \<open>dailyCalories\<close>: the field holds what it
  held before the call. Only \<open>bmi\<close> and \<open>bmr\<close> change, and they, like every other
  field, end as they do for a profile that differs in nothing but a matching activity
  level \<open>l\<close>.
\<close>

theorem C6_unmatched_level:
  assumes "activityLevel p \<notin>
             {''sedentary'', ''lightly active'', ''moderately active'', ''very active''}"
  shows "dailyCalories (calculateMetrics p) = dailyCalories p
         \<and> calculateMetrics p =
             p\<lparr>bmi := bmi (calculateMetrics p), bmr := bmr (calculateMetrics p)\<rparr>
         \<and> (calculateMetrics (p\<lparr>activityLevel := l\<rparr>))
              \<lparr>activityLevel := activityLevel p, dailyCalories := dailyCalories p\<rparr>
            = calculateMetrics p"
  using assms by (simp add: calculateMetrics_def Let_def activityLoop_table)

theorem C6_unmatched_level_witness:
  "activityLevel (scenario\<lparr>activityLevel := ''athlete'', dailyCalories := 42\<rparr>) \<notin>
      {''sedentary'', ''lightly active'', ''moderately active'', ''very active''}
   \<and> dailyCalories
        (calculateMetrics (scenario\<lparr>activityLevel := ''athlete'', dailyCalories := 42\<rparr>)) = 42
   \<and> (calculateMetrics (scenario\<lparr>dailyCalories := 42\<rparr>))
        \<lparr>activityLevel := ''athlete'', dailyCalories := 42\<rparr>
      = calculateMetrics (scenario\<lparr>activityLevel := ''athlete'', dailyCalories := 42\<rparr>)"
  using C6_unmatched_level
    [of "scenario\<lparr>activityLevel := ''athlete'', dailyCalories := 42\<rparr>" "''moderately active''"]
  by (simp add: scenario_def)

text \<open>
  C7. \<^verbatim>\<open>isValidGender\<close> accepts a string exactly when its character-wise lower case
  is "male" or "female"; "MALE", "Male" and "male" are accepted. An accepted line is
  returned by \<^verbatim>\<open>getValidStringInput\<close> in lower case, so whatever it returns for the
  gender, and so the gender \<^verbatim>\<open>collectUserData\<close> stores, is "male" or "female".
\<close>

theorem C7_gender_case_insensitive:
  "isValidGender s = (map tolower s = ''male'' \<or> map tolower s = ''female'')
   \<and> (isValidGender s \<longrightarrow>
        getValidStringInput isValidGender (s # rest) = Some (map tolower s))
   \<and> (getValidStringInput isValidGender inputs = Some r \<longrightarrow> r = ''male'' \<or> r = ''female'')
   \<and> (collectUserData p0 inp = Some q \<longrightarrow> gender q = ''male'' \<or> gender q = ''female'')
   \<and> isValidGender ''MALE'' \<and> isValidGender ''Male'' \<and> isValidGender ''male''
   \<and> getValidStringInput isValidGender [''MALE''] = Some ''male''
   \<and> getValidStringInput isValidGender [''Male''] = Some ''male''
   \<and> getValidStringInput isValidGender [''male''] = Some ''male''"
proof -
  have iff: "isValidGender s = (map tolower s = ''male'' \<or> map tolower s = ''female'')"
    by (simp add: isValidGender_def Let_def)
  have first: "isValidGender s \<longrightarrow>
      getValidStringInput isValidGender (s # rest) = Some (map tolower s)"
    by simp
  have canonical: "r = ''male'' \<or> r = ''female''"
    if "getValidStringInput isValidGender inputs = Some r" for inputs r
    using getValidStringInput_valid [OF that]
    by (auto simp: isValidGender_def Let_def)
  have stored: "collectUserData p0 inp = Some q \<longrightarrow> gender q = ''male'' \<or> gender q = ''female''"
    by (auto simp: collectUserData_def split: option.splits dest: canonical)
  have examples: "isValidGender ''MALE''" "isValidGender ''Male''" "isValidGender ''male''"
    by (simp_all add: isValidGender_def Let_def tolower_letters)
  have returned: "getValidStringInput isValidGender [''MALE''] = Some ''male''"
    "getValidStringInput isValidGender [''Male''] = Some ''male''"
    "getValidStringInput isValidGender [''male''] = Some ''male''"
    using examples by (simp_all add: tolower_letters)
  from iff first canonical [of inputs r] stored examples returned show ?thesis
    by blast
qed

theorem C7_gender_case_insensitive_witness:
  "isValidGender ''FeMale''
   \<and> getValidStringInput isValidGender [''FeMale'', ''male''] = Some ''female''
   \<and> getValidStringInput isValidGender [''man'', ''FeMale''] = Some ''female''
   \<and> collectUserData scenario scenarioInput = Some scenario
   \<and> gender scenario = ''male''"
proof -
  have collected: "collectUserData scenario scenarioInput = Some scenario"
    by (rule collect_scenario)
  have gender: "gender scenario = ''male''"
    by (simp add: scenario_def)
  from C7_gender_case_insensitive
      [of "''FeMale''" "[''male'']" "[''man'', ''FeMale'']" "''female''"
      scenario scenarioInput scenario] collected gender
  show ?thesis
    by (simp add: tolower_strings isValidGender_def Let_def del: list.map)
qed

text \<open>
  C8. The bounds of \<^verbatim>\<open>getValidInput\<close> are inclusive: an extracted value \<open>v\<close> is
  the value returned at that turn exactly when \<open>min_value \<le> v \<le> max_value\<close>. The age
  is read with the bounds 1 and 120: 0 and 121 are rejected (with nothing more to
  read, the loop never returns), 1 and 120 are accepted.
\<close>

theorem C8_inclusive_bounds:
  "(getValidInput (Some v # rest) min_value max_value = Some v)
     = (min_value \<le> v \<and> v \<le> max_value)
   \<and> getValidInput [Some 0] (1::int) 120 = None
   \<and> getValidInput [Some 121] (1::int) 120 = None
   \<and> getValidInput [Some 1] (1::int) 120 = Some 1
   \<and> getValidInput [Some 120] (1::int) 120 = Some 120
   \<and> (collectUserData p0 inp = Some q \<longrightarrow>
        getValidInput (ageInput inp) 1 120 = Some (age q))"
proof -
  have "(getValidInput (Some v # rest) min_value max_value = Some v)
     = (min_value \<le> v \<and> v \<le> max_value)"
    using getValidInput_range [of rest min_value max_value v] by auto
  moreover have "collectUserData p0 inp = Some q \<longrightarrow>
        getValidInput (ageInput inp) 1 120 = Some (age q)"
    by (auto simp: collectUserData_def split: option.splits)
  ultimately show ?thesis by simp
qed

theorem C8_inclusive_bounds_witness:
  "collectUserData scenario scenarioInput = Some scenario
   \<and> getValidInput (ageInput scenarioInput) 1 120 = Some 25
   \<and> getValidInput [Some 121, Some 7] (1::int) 120 \<noteq> Some 121"
proof -
  have collected: "collectUserData scenario scenarioInput = Some scenario"
    by (rule collect_scenario)
  have age: "age scenario = 25"
    by (simp add: scenario_def)
  from C8_inclusive_bounds [of "121::int" "[Some 7]" 1 120 scenario scenarioInput scenario]
    collected age
  show ?thesis
    by simp
qed

text \<open>
  C9. The exercise section of \<^verbatim>\<open>provideRecommendations\<close> (the three items after
  the two headers) is the low-impact block exactly when the BMI is at least 24.9, which
  is exactly when the category is "Overweight" or "Obese"; otherwise it is the
  balanced-routine block. \<^verbatim>\<open>displayResults\<close> ends with these recommendations.
\<close>

theorem C9_exercise_block:
  "(take 3 (drop 2 (provideRecommendations p)) = lowImpactBlock) = (bmi p \<ge> 24.9)
   \<and> (take 3 (drop 2 (provideRecommendations p)) = balancedRoutineBlock) = (\<not> bmi p \<ge> 24.9)
   \<and> (bmi p \<ge> 24.9) =
       (bmiCategory (bmi p) = ''Category: Overweight\<newline>''
        \<or> bmiCategory (bmi p) = ''Category: Obese\<newline>'')
   \<and> drop 21 (displayResults p) = provideRecommendations p"
  using blocks_differ
  by (auto simp: exercise_section bmiCategory_def bmiThresholds_def displayResults_def)

theorem C9_exercise_block_witness:
  "\<not> bmi (calculateMetrics scenario) \<ge> 24.9
   \<and> take 3 (drop 2 (provideRecommendations (calculateMetrics scenario)))
       = balancedRoutineBlock"
  using C9_exercise_block [of "calculateMetrics scenario"]
  by (simp add: calculateMetrics_def Let_def activityLoop_fields scenario_def power2_eq_square)

text \<open>
  C10. \<^verbatim>\<open>calculateMetrics\<close> uses the male formula only when the gender is the
  string "male" itself. Any other string ("female", "Male", anything not validated)
  gets the female formula.
\<close>

theorem C10_male_only_exact:
  "(gender p = ''male'' \<longrightarrow>
      bmr (calculateMetrics p) =
        88.362 + 13.397 * weight p + 4.799 * (height p * 100) - 5.677 * real_of_int (age p))
   \<and> (gender p \<noteq> ''male'' \<longrightarrow>
      bmr (calculateMetrics p) =
        447.593 + 9.247 * weight p + 3.098 * (height p * 100) - 4.330 * real_of_int (age p))"
  by (simp add: calculateMetrics_def Let_def activityLoop_fields)

theorem C10_male_only_exact_witness:
  "gender (scenario\<lparr>gender := ''Male''\<rparr>) \<noteq> ''male''
   \<and> bmr (calculateMetrics (scenario\<lparr>gender := ''Male''\<rparr>)) =
        447.593 + 9.247 * 75 + 3.098 * (1.8 * 100) - 4.330 * 25"
  using C10_male_only_exact [of "scenario\<lparr>gender := ''Male''\<rparr>"]
  by (simp add: scenario_def)

end
